theory Spec2Isabelle
  imports
    Complex_Main
    "HOL-Library.Char_ord"
    "HOL-Library.List_Lexorder"
    "HOL-Library.Product_Lexorder"
    "HOL-Library.AList"
begin

unbundle bit_operations_syntax

section \<open>Conventions of the embedding\<close>

text \<open>
  The development embeds \<^verbatim>\<open>src/ingame_overlay.py\<close> and \<^verbatim>\<open>src/ml_rating.py\<close>.

  \<^item> A Python \<^verbatim>\<open>str\<close> is a \<^typ>\<open>string\<close>; characters are ordered by code point
    (\<^verbatim>\<open>Char_ord\<close>), strings lexicographically (\<^verbatim>\<open>List_Lexorder\<close>) and tuples
    lexicographically (\<^verbatim>\<open>Product_Lexorder\<close>), as Python compares them. Only code
    points below 256 are representable.
  \<^item> A Python \<^verbatim>\<open>dict\<close> is the list of its items in insertion order. A key is looked
    up with \<^const>\<open>map_of\<close> and stored with \<^const>\<open>AList.update\<close>, which replaces the
    value of a key already present and appends a new key at the end, as a \<^verbatim>\<open>dict\<close> does.
  \<^item> A Python \<^verbatim>\<open>float\<close> is a \<^typ>\<open>real\<close>: arithmetic is exact, and NaN and the
    infinities are not represented.
  \<^item> A field a dict may lack has an \<^typ>\<open>'a option\<close> type, \<^const>\<open>None\<close> for a key
    that is absent.
\<close>

type_synonym ('k, 'v) dict = "('k \<times> 'v) list"

definition dict_get :: "('k, 'v) dict \<Rightarrow> 'k \<Rightarrow> 'v \<Rightarrow> 'v" where
  \<comment> \<open>\<^verbatim>\<open>d.get(k, default)\<close>\<close>
  "dict_get d k dflt = (case map_of d k of None \<Rightarrow> dflt | Some v \<Rightarrow> v)"

section \<open>The draft pack sort\<close>

subsection \<open>Cards\<close>

text \<open>A card is a dict read from the log scanner; every key may be missing.\<close>

record card =
  name :: "string option"
  rarity :: "string option"
  types :: "string list option"
  colors :: "string list option"
  color_identity :: "string list option"

subsection \<open>Lookup tables\<close>

definition RARITY_ORDER :: "(string, nat) dict" where
  "RARITY_ORDER = [(''mythic'', 0), (''rare'', 1), (''uncommon'', 2), (''common'', 3)]"

definition COLOR_SORT_TABLE :: "nat list" where
  "COLOR_SORT_TABLE = (replicate 32 0)
     [1 := 0, 2 := 1, 4 := 2, 8 := 3, 16 := 4,
      3 := 5, 5 := 6, 6 := 7, 10 := 8, 12 := 9,
      20 := 10, 24 := 11, 9 := 12, 17 := 13, 18 := 14,
      7 := 15, 14 := 16, 28 := 17, 25 := 18, 19 := 19,
      13 := 20, 26 := 21, 21 := 22, 11 := 23, 22 := 24,
      15 := 25, 30 := 26, 29 := 27, 27 := 28, 23 := 29,
      31 := 30, 0 := 31]"

definition COLOR_FLAG :: "(string, nat) dict" where
  "COLOR_FLAG = [(''W'', 1), (''U'', 2), (''B'', 4), (''R'', 8), (''G'', 16)]"

subsection \<open>Colour flags and the sort key\<close>

definition card_color_flags :: "card \<Rightarrow> nat" where
  "card_color_flags c =
     (let tys = (case types c of None \<Rightarrow> [] | Some ts \<Rightarrow> ts);
          is_artifact_or_land = list_ex (\<lambda>t. t \<in> set [''Artifact'', ''Land'']) tys;
          cols = (case color_identity c of
                    Some ci \<Rightarrow> if is_artifact_or_land then ci
                               else (case colors c of None \<Rightarrow> [] | Some cs \<Rightarrow> cs)
                  | None \<Rightarrow> (case colors c of None \<Rightarrow> [] | Some cs \<Rightarrow> cs))
      in foldl (\<lambda>flag col. flag OR dict_get COLOR_FLAG col 0) 0 cols)"

definition digit_char :: "char \<Rightarrow> bool" where
  \<comment> \<open>the code points below 256 that \<^verbatim>\<open>str.isdigit\<close> accepts: 0-9 and the
      superscripts two, three and one\<close>
  "digit_char ch =
     (let n = (of_char ch :: nat) in (48 \<le> n \<and> n \<le> 57) \<or> n = 178 \<or> n = 179 \<or> n = 185)"

definition isdigit :: "string \<Rightarrow> bool" where
  \<comment> \<open>\<^verbatim>\<open>str.isdigit\<close>: false on the empty string\<close>
  "isdigit s = (s \<noteq> [] \<and> list_all digit_char s)"

type_synonym sort_key = "nat \<times> nat \<times> nat \<times> string"

definition card_name :: "card \<Rightarrow> string" where
  \<comment> \<open>\<^verbatim>\<open>card.get(constants.DATA_FIELD_NAME, "")\<close>\<close>
  "card_name c = (case name c of None \<Rightarrow> [] | Some n \<Rightarrow> n)"

definition mtga_draft_sort_key :: "card \<Rightarrow> sort_key" where
  "mtga_draft_sort_key c =
     (let nm = card_name c in
      if isdigit nm then (3, 1, 32, nm)
      else
        let rar = dict_get RARITY_ORDER
                    (case rarity c of None \<Rightarrow> ''common'' | Some r \<Rightarrow> r) 3;
            is_land = (if ''Land'' \<in> set (case types c of None \<Rightarrow> [] | Some ts \<Rightarrow> ts)
                       then 1 else 0);
            color_order = COLOR_SORT_TABLE ! (card_color_flags c AND 31)
        in (rar, is_land, color_order, nm))"

definition sort_pack :: "card list \<Rightarrow> card list" where
  \<comment> \<open>\<^verbatim>\<open>sorted(cards, key=mtga_draft_sort_key) if cards else []\<close>; Python's sort is
      stable, as \<^const>\<open>sort_key\<close> is\<close>
  "sort_pack cards = (if cards \<noteq> [] then sort_key mtga_draft_sort_key cards else [])"

section \<open>Badge positions\<close>

type_synonym rect = "int \<times> int \<times> int \<times> int"

text \<open>
  The configuration object. The calibration attributes and the debug flag are read with
  \<^verbatim>\<open>getattr(feat, name, default)\<close>, so each may be absent.
\<close>

record features =
  ingame_grid_left :: "real option"
  ingame_grid_right :: "real option"
  ingame_grid_top :: "real option"
  ingame_grid_bottom :: "real option"
  ingame_overlay_debug :: "bool option"

record settings =
  ingame_overlay_enabled :: bool

record configuration =
  features :: features
  settings :: settings

definition getattr :: "'a option \<Rightarrow> 'a \<Rightarrow> 'a" where
  "getattr field dflt = (case field of None \<Rightarrow> dflt | Some v \<Rightarrow> v)"

definition GRID_LAYOUTS :: "(int, nat \<times> nat) dict" where
  "GRID_LAYOUTS =
     [(15, (8, 2)), (14, (8, 2)), (13, (8, 2)), (12, (8, 2)),
      (11, (8, 2)), (10, (8, 2)), (9, (8, 2)),
      (8, (8, 1)), (7, (7, 1)), (6, (6, 1)),
      (5, (5, 1)), (4, (4, 1)), (3, (3, 1)), (2, (2, 1)), (1, (1, 1))]"

definition py_int :: "real \<Rightarrow> int" where
  \<comment> \<open>\<^verbatim>\<open>int(x)\<close> on a float truncates towards zero\<close>
  "py_int x = (if x < 0 then \<lceil>x\<rceil> else \<lfloor>x\<rfloor>)"

definition grid_w :: "configuration \<Rightarrow> rect \<Rightarrow> real" where
  "grid_w cfg r = (case r of (left, top', right, bottom) \<Rightarrow>
     (getattr (ingame_grid_right (features cfg)) 0.826
        - getattr (ingame_grid_left (features cfg)) 0.16) * real_of_int (right - left))"

definition grid_h :: "configuration \<Rightarrow> rect \<Rightarrow> real" where
  "grid_h cfg r = (case r of (left, top', right, bottom) \<Rightarrow>
     (getattr (ingame_grid_bottom (features cfg)) 0.654
        - getattr (ingame_grid_top (features cfg)) 0.32) * real_of_int (bottom - top'))"

definition grid_x0 :: "configuration \<Rightarrow> rect \<Rightarrow> real" where
  "grid_x0 cfg r = (case r of (left, top', right, bottom) \<Rightarrow>
     real_of_int left
       + getattr (ingame_grid_left (features cfg)) 0.16 * real_of_int (right - left))"

definition grid_y0 :: "configuration \<Rightarrow> rect \<Rightarrow> real" where
  "grid_y0 cfg r = (case r of (left, top', right, bottom) \<Rightarrow>
     real_of_int top'
       + getattr (ingame_grid_top (features cfg)) 0.32 * real_of_int (bottom - top'))"

definition calculate_card_positions ::
  "configuration \<Rightarrow> int \<Rightarrow> rect \<Rightarrow> (int \<times> int) list" where
  "calculate_card_positions cfg num_cards window_rect =
     (if num_cards \<le> 0 \<or> num_cards > 15 then []
      else case window_rect of (left, top', right, bottom) \<Rightarrow>
        let w = right - left; h = bottom - top' in
        if w \<le> 0 \<or> h \<le> 0 then []
        else
          let (cols, rows) = dict_get GRID_LAYOUTS num_cards (8, 2);
              cell_w = grid_w cfg window_rect / 8;
              cell_h = grid_h cfg window_rect / 2;
              y_offset = cell_h * 0.08
          in map (\<lambda>idx.
                let row_idx = idx div cols;
                    col_idx = idx mod cols;
                    cx = grid_x0 cfg window_rect + real col_idx * cell_w + cell_w / 2;
                    cy = grid_y0 cfg window_rect + real row_idx * cell_h + y_offset
                in (py_int (cx - 15), py_int cy))
               [0..<nat num_cards])"

section \<open>The overlay\<close>

subsection \<open>Rating badges\<close>

definition tier_colors :: "real \<Rightarrow> bool \<Rightarrow> string \<times> string" where
  "tier_colors rating is_best =
     (if is_best then (''#FFD700'', ''#000000'')
      else if rating \<ge> 90 then (''#FF4500'', ''#FFFFFF'')
      else if rating \<ge> 75 then (''#22AA22'', ''#FFFFFF'')
      else if rating \<ge> 65 then (''#3399DD'', ''#FFFFFF'')
      else if rating \<ge> 58 then (''#5577AA'', ''#FFFFFF'')
      else if rating \<ge> 52 then (''#778899'', ''#FFFFFF'')
      else if rating \<ge> 45 then (''#888888'', ''#FFFFFF'')
      else if rating \<ge> 30 then (''#AA4444'', ''#FFFFFF'')
      else (''#553333'', ''#998888''))"

text \<open>
  A badge is the state of one toplevel window: what its label shows, where it is, and whether
  it is mapped. The label text \<^verbatim>\<open>f"{rating:.1f}"\<close>, with \<^verbatim>\<open>[idx:short_name]\<close>
  appended in debug mode, is kept as the values it is formatted from. The Win32 click-through
  style has no field here.
\<close>

record rating_badge =
  shown_rating :: "real option"
  shown_debug :: "(nat \<times> string) option"
  bg :: "string option"
  fg :: "string option"
  geometry :: "(int \<times> int) option"
  visible :: bool

definition new_badge :: rating_badge where
  \<comment> \<open>\<^verbatim>\<open>RatingBadge(root)\<close>: withdrawn, empty label\<close>
  "new_badge = \<lparr>shown_rating = None, shown_debug = None, bg = None, fg = None,
                 geometry = None, visible = False\<rparr>"

definition show_badge ::
  "rating_badge \<Rightarrow> int \<Rightarrow> int \<Rightarrow> real \<Rightarrow> bool \<Rightarrow> (nat \<times> string) option \<Rightarrow> rating_badge" where
  "show_badge b x y rating is_best debug_info =
     (case tier_colors rating is_best of (bgc, fgc) \<Rightarrow>
        b\<lparr>shown_rating := Some rating,
          shown_debug := map_option
             (\<lambda>(idx, nm). (idx, if length nm > 10 then take 10 nm else nm)) debug_info,
          bg := Some bgc, fg := Some fgc,
          geometry := Some (x, y),
          visible := True\<rparr>)"

definition hide_badge :: "rating_badge \<Rightarrow> rating_badge" where
  "hide_badge b = (if visible b then b\<lparr>visible := False\<rparr> else b)"

definition best_highlight :: "rating_badge \<Rightarrow> bool" where
  \<comment> \<open>the badge wears the colour pair reserved for the best card of the pack\<close>
  "best_highlight b = (bg b = Some ''#FFD700'' \<and> fg b = Some ''#000000'')"

subsection \<open>The target window\<close>

text \<open>
  What the Win32 calls answer at the moment of a reposition: the window search, whether the
  window is iconic, and its client rectangle in screen coordinates. A call that raises is
  caught by the source and answers \<^const>\<open>None\<close> (\<^const>\<open>False\<close> for the iconic test).
\<close>

record window_env =
  platform_win32 :: bool
  window_search :: "nat option"
  is_iconic :: "nat \<Rightarrow> bool"
  client_rect :: "nat \<Rightarrow> rect option"

definition find_mtga_window :: "window_env \<Rightarrow> nat option" where
  "find_mtga_window env = (if \<not> platform_win32 env then None else window_search env)"

definition is_minimized :: "window_env \<Rightarrow> nat \<Rightarrow> bool" where
  "is_minimized env hwnd = is_iconic env hwnd"

definition get_mtga_rect :: "window_env \<Rightarrow> nat \<Rightarrow> rect option" where
  "get_mtga_rect env hwnd = client_rect env hwnd"

subsection \<open>Overlay state and operations\<close>

record in_game_overlay =
  badges :: "rating_badge list"
  last_mtga_rect :: "rect option"
  last_pack_cards :: "card list"
  last_ratings :: "(string, real) dict"
  last_pick_number :: int

definition init_overlay :: in_game_overlay where
  "init_overlay = \<lparr>badges = [], last_mtga_rect = None, last_pack_cards = [],
                    last_ratings = [], last_pick_number = - 1\<rparr>"

definition hide_all_badges :: "in_game_overlay \<Rightarrow> in_game_overlay" where
  \<comment> \<open>\<^verbatim>\<open>_hide_all\<close>\<close>
  "hide_all_badges s = s\<lparr>badges := map hide_badge (badges s)\<rparr>"

definition py_max_default :: "real list \<Rightarrow> real \<Rightarrow> real" where
  \<comment> \<open>\<^verbatim>\<open>max(iterable, default=d)\<close>: the first item, replaced by each later item that
      is greater\<close>
  "py_max_default xs dflt =
     (case xs of [] \<Rightarrow> dflt | x # rest \<Rightarrow> foldl (\<lambda>m v. if v > m then v else m) x rest)"

definition card_ratings_of :: "(string, real) dict \<Rightarrow> card list \<Rightarrow> (string \<times> real) list" where
  \<comment> \<open>the list \<^verbatim>\<open>card_ratings\<close>; every card is a dict, so its name is read with
      \<^verbatim>\<open>card.get\<close>\<close>
  "card_ratings_of ratings_dict pack_cards =
     map (\<lambda>c. let nm = card_name c; r = dict_get ratings_dict nm 0 in (nm, r)) pack_cards"

definition card_rating_at :: "in_game_overlay \<Rightarrow> nat \<Rightarrow> real" where
  \<comment> \<open>the rating in entry \<open>i\<close> of \<^verbatim>\<open>card_ratings\<close>, built from the cached pack and ratings\<close>
  "card_rating_at s i =
     snd (card_ratings_of (last_ratings s) (sort_pack (last_pack_cards s)) ! i)"

text \<open>
  The loop over \<^verbatim>\<open>enumerate(zip(positions, card_ratings))\<close>. The badge list has been
  grown to the number of cards before the loop runs, so \<open>idx\<close> is within it.
\<close>

fun show_badges ::
  "bool \<Rightarrow> real \<Rightarrow> nat \<Rightarrow> ((int \<times> int) \<times> (string \<times> real)) list
     \<Rightarrow> rating_badge list \<Rightarrow> rating_badge list" where
  "show_badges debug_mode best_rating idx [] bs = bs"
| "show_badges debug_mode best_rating idx ((pos, (nm, rating)) # rest) bs =
     (let is_best = (rating = best_rating \<and> rating > 0);
          b = (if debug_mode
               then show_badge (bs ! idx) (fst pos) (snd pos) rating is_best (Some (idx, nm))
               else show_badge (bs ! idx) (fst pos) (snd pos) rating is_best None)
      in show_badges debug_mode best_rating (Suc idx) rest (bs[idx := b]))"

definition hide_extra :: "nat \<Rightarrow> rating_badge list \<Rightarrow> rating_badge list" where
  \<comment> \<open>\<^verbatim>\<open>for idx in range(num_cards, len(self._badges)): self._badges[idx].hide()\<close>\<close>
  "hide_extra num_cards bs =
     fold (\<lambda>idx acc. acc[idx := hide_badge (acc ! idx)]) [num_cards..<length bs] bs"

definition position_badges ::
  "configuration \<Rightarrow> window_env \<Rightarrow> in_game_overlay \<Rightarrow> in_game_overlay" where
  "position_badges cfg env s =
     (let pack_cards = sort_pack (last_pack_cards s);
          ratings_dict = last_ratings s
      in if pack_cards = [] \<or> ratings_dict = [] then hide_all_badges s
         else case find_mtga_window env of
           None \<Rightarrow> hide_all_badges s
         | Some hwnd \<Rightarrow>
             if is_minimized env hwnd then hide_all_badges s
             else case get_mtga_rect env hwnd of
               None \<Rightarrow> hide_all_badges s
             | Some r \<Rightarrow>
                 let s1 = s\<lparr>last_mtga_rect := Some r\<rparr>;
                     num_cards = length pack_cards;
                     positions = calculate_card_positions cfg (int num_cards) r
                 in if length positions \<noteq> num_cards then hide_all_badges s1
                    else
                      let grown = badges s1
                                    @ replicate (num_cards - length (badges s1)) new_badge;
                          card_ratings = card_ratings_of ratings_dict pack_cards;
                          best_rating = py_max_default (map snd card_ratings) 0;
                          debug_mode = getattr (ingame_overlay_debug (features cfg)) False;
                          shown = show_badges debug_mode best_rating 0
                                    (zip positions card_ratings) grown
                      in s1\<lparr>badges := hide_extra num_cards shown\<rparr>)"

definition update ::
  "configuration \<Rightarrow> window_env \<Rightarrow> in_game_overlay
     \<Rightarrow> card list \<Rightarrow> (string, real) dict \<Rightarrow> int \<Rightarrow> in_game_overlay" where
  "update cfg env s pack_cards ratings_dict pick_number =
     (if \<not> ingame_overlay_enabled (settings cfg) then hide_all_badges s
      else if \<not> platform_win32 env then s
      else position_badges cfg env
             (s\<lparr>last_pack_cards := pack_cards,
                last_ratings := ratings_dict,
                last_pick_number := pick_number\<rparr>))"

definition hide_all :: "in_game_overlay \<Rightarrow> in_game_overlay" where
  "hide_all s = hide_all_badges (s\<lparr>last_pack_cards := [], last_ratings := []\<rparr>)"

definition poll_tick ::
  "configuration \<Rightarrow> window_env \<Rightarrow> in_game_overlay \<Rightarrow> in_game_overlay" where
  \<comment> \<open>the body of \<^verbatim>\<open>_poll_tick\<close>; rescheduling itself 500 ms later changes no field of
      the overlay state\<close>
  "poll_tick cfg env s =
     (if ingame_overlay_enabled (settings cfg) \<and> last_pack_cards s \<noteq> [] \<and> last_ratings s \<noteq> []
      then position_badges cfg env s
      else s)"

section \<open>The rating engine\<close>

subsection \<open>Exceptions, sessions and the model store\<close>

datatype py_exception = IndexError | Exception string

definition py_nth :: "'a list \<Rightarrow> nat \<Rightarrow> py_exception + 'a" where
  \<comment> \<open>\<^verbatim>\<open>xs[i]\<close> for an index that is not negative\<close>
  "py_nth xs i = (if i < length xs then Inr (xs ! i) else Inl IndexError)"

text \<open>
  An inference session: the names of its inputs, and \<^verbatim>\<open>run(None, feeds)\<close>, which raises or
  returns its output arrays, each kept flattened.
\<close>

record session =
  get_inputs :: "string list"
  run :: "(string, real list) dict \<Rightarrow> py_exception + real list list"

text \<open>
  What the module sees of its surroundings: whether \<^verbatim>\<open>onnxruntime\<close> imported, which paths
  exist, and what loading a model file and reading the \<^verbatim>\<open>name\<close> column of a card file
  give. A path is kept as the components handed to \<^verbatim>\<open>os.path.join\<close>.
\<close>

record ml_env =
  ONNX_AVAILABLE :: bool
  path_exists :: "string list \<Rightarrow> bool"
  InferenceSession :: "string list \<Rightarrow> py_exception + session"
  read_csv_names :: "string list \<Rightarrow> py_exception + string list"

record ml_model_manager =
  model_directory :: string
  sessions :: "(string, session) dict"
  cardnames :: "(string, string list) dict"

fun try_modes ::
  "ml_env \<Rightarrow> ml_model_manager \<Rightarrow> string \<Rightarrow> string \<Rightarrow> string list
     \<Rightarrow> session option \<times> ml_model_manager" where
  "try_modes env mgr set_code cache_key [] = (None, mgr)"
| "try_modes env mgr set_code cache_key (try_mode # rest) =
     (let model_path = [model_directory mgr, ''onnx'', set_code @ ''_'' @ try_mode @ ''.onnx'']
      in if path_exists env model_path
         then (case InferenceSession env model_path of
                 Inr sess \<Rightarrow>
                   (Some sess, mgr\<lparr>sessions := AList.update cache_key sess (sessions mgr)\<rparr>)
               | Inl e \<Rightarrow> (None, mgr))
         else try_modes env mgr set_code cache_key rest)"

definition get_model ::
  "ml_env \<Rightarrow> ml_model_manager \<Rightarrow> string \<Rightarrow> string \<Rightarrow> session option \<times> ml_model_manager" where
  "get_model env mgr set_code mode =
     (if \<not> ONNX_AVAILABLE env then (None, mgr)
      else
        let cache_key = set_code @ ''_'' @ mode in
        case map_of (sessions mgr) cache_key of
          Some sess \<Rightarrow> (Some sess, mgr)
        | None \<Rightarrow>
            let modes_to_try = (if mode = ''Premier'' then [mode, ''PickTwo''] else [mode])
            in try_modes env mgr set_code cache_key modes_to_try)"

definition get_cardnames ::
  "ml_env \<Rightarrow> ml_model_manager \<Rightarrow> string \<Rightarrow> string list option \<times> ml_model_manager" where
  "get_cardnames env mgr set_code =
     (case map_of (cardnames mgr) set_code of
        Some names \<Rightarrow> (Some names, mgr)
      | None \<Rightarrow>
          let csv_path = [model_directory mgr, ''cards'', set_code @ ''.csv'']
          in if \<not> path_exists env csv_path then (None, mgr)
             else (case read_csv_names env csv_path of
                     Inr names \<Rightarrow>
                       (Some names, mgr\<lparr>cardnames := AList.update set_code names (cardnames mgr)\<rparr>)
                   | Inl e \<Rightarrow> (None, mgr)))"

subsection \<open>Normalisation\<close>

definition mean :: "real list \<Rightarrow> real" where
  "mean xs = sum_list xs / real (length xs)"

definition std :: "real list \<Rightarrow> real" where
  \<comment> \<open>\<^verbatim>\<open>np.std\<close>: the population standard deviation\<close>
  "std xs = sqrt (mean (map (\<lambda>x. \<bar>x - mean xs\<bar> ^ 2) xs))"

definition round_half_even :: "real \<Rightarrow> int" where
  "round_half_even x =
     (let f = \<lfloor>x\<rfloor>; d = x - real_of_int f in
      if d < 1 / 2 then f
      else if d > 1 / 2 then f + 1
      else if even f then f else f + 1)"

definition round1 :: "real \<Rightarrow> real" where
  \<comment> \<open>\<^verbatim>\<open>round(x, 1)\<close>\<close>
  "round1 x = real_of_int (round_half_even (x * 10)) / 10"

definition index_of :: "'a \<Rightarrow> 'a list \<Rightarrow> nat" where
  \<comment> \<open>\<^verbatim>\<open>xs.index(x)\<close> for an \<open>x\<close> that occurs in \<open>xs\<close>\<close>
  "index_of x xs = length (takeWhile (\<lambda>y. y \<noteq> x) xs)"

subsection \<open>Computing the ratings\<close>

text \<open>
  The dict comprehension over \<^verbatim>\<open>enumerate(cardnames)\<close>: \<^verbatim>\<open>ratings[i]\<close> raises when
  the model returned fewer scores than there are names.
\<close>

fun build_ratings ::
  "real list \<Rightarrow> nat \<Rightarrow> string list \<Rightarrow> (string, real) dict
     \<Rightarrow> py_exception + (string, real) dict" where
  "build_ratings ratings i [] acc = Inr acc"
| "build_ratings ratings i (nm # rest) acc =
     (case py_nth ratings i of
        Inl e \<Rightarrow> Inl e
      | Inr r \<Rightarrow> build_ratings ratings (Suc i) rest (AList.update nm (round1 r) acc))"

definition normalize_scores :: "real list \<Rightarrow> real list" where
  "normalize_scores raw_scores =
     (let m = mean raw_scores; sd = std raw_scores in
      if sd > 0 then map (\<lambda>x. 100 / (1 + exp (- 1.2 * (x - m) / sd))) raw_scores
      else replicate (length raw_scores) 50.0)"

definition run_inference ::
  "session \<Rightarrow> string list \<Rightarrow> string list \<Rightarrow> py_exception + real list" where
  \<comment> \<open>the \<^verbatim>\<open>try\<close> body up to \<^verbatim>\<open>raw_scores = outputs[0].flatten()\<close>\<close>
  "run_inference sess names pool_names =
     (let collection_vector =
            foldl (\<lambda>v nm. if nm \<in> set names
                           then (let idx = index_of nm names in v[idx := v ! idx + 1])
                           else v)
                  (replicate (length names) (0::real)) pool_names;
          pack_vector = replicate (length names) (1::real);
          input_names = get_inputs sess
      in case py_nth input_names 0 of
           Inl e \<Rightarrow> Inl e
         | Inr in0 \<Rightarrow>
            (case py_nth input_names 1 of
               Inl e \<Rightarrow> Inl e
             | Inr in1 \<Rightarrow>
                (case run sess (AList.update in1 pack_vector
                                  (AList.update in0 collection_vector [])) of
                   Inl e \<Rightarrow> Inl e
                 | Inr outputs \<Rightarrow> py_nth outputs 0)))"

definition compute_ratings_body ::
  "session \<Rightarrow> string list \<Rightarrow> string list \<Rightarrow> py_exception + (string, real) dict" where
  \<comment> \<open>the whole \<^verbatim>\<open>try\<close> body, up to the dict comprehension\<close>
  "compute_ratings_body sess names pool_names =
     (case run_inference sess names pool_names of
        Inl e \<Rightarrow> Inl e
      | Inr raw_scores \<Rightarrow> build_ratings (normalize_scores raw_scores) 0 names [])"

record ml_rating_calculator =
  model_manager :: ml_model_manager
  current_ratings :: "(string, real) dict"
  current_set :: string
  current_mode :: string

definition compute_ratings ::
  "ml_env \<Rightarrow> ml_rating_calculator \<Rightarrow> string list \<Rightarrow> string \<Rightarrow> string
     \<Rightarrow> (string, real) dict \<times> ml_rating_calculator" where
  "compute_ratings env calc pool_names set_code mode =
     (if \<not> ONNX_AVAILABLE env then ([], calc)
      else case get_model env (model_manager calc) set_code mode of
        (None, mgr1) \<Rightarrow> ([], calc\<lparr>model_manager := mgr1\<rparr>)
      | (Some sess, mgr1) \<Rightarrow>
          (case get_cardnames env mgr1 set_code of
             (None, mgr2) \<Rightarrow> ([], calc\<lparr>model_manager := mgr2\<rparr>)
           | (Some names, mgr2) \<Rightarrow>
               (case compute_ratings_body sess names pool_names of
                  Inl e \<Rightarrow> ([], calc\<lparr>model_manager := mgr2\<rparr>)
                | Inr result \<Rightarrow>
                    (result, calc\<lparr>model_manager := mgr2,
                                  current_ratings := result,
                                  current_set := set_code,
                                  current_mode := mode\<rparr>))))"

section \<open>Example inputs\<close>

text \<open>Concrete inputs at which the theorems below are instantiated.\<close>

definition default_configuration :: configuration where
  \<comment> \<open>no calibration attribute set, overlay enabled\<close>
  "default_configuration =
     \<lparr>features = \<lparr>ingame_grid_left = None, ingame_grid_right = None,
                   ingame_grid_top = None, ingame_grid_bottom = None,
                   ingame_overlay_debug = None\<rparr>,
      settings = \<lparr>ingame_overlay_enabled = True\<rparr>\<rparr>"

definition disabled_configuration :: configuration where
  "disabled_configuration =
     default_configuration\<lparr>settings := \<lparr>ingame_overlay_enabled = False\<rparr>\<rparr>"

definition example_window :: window_env where
  \<comment> \<open>the client window found, not minimised, at (100, 100, 1100, 600)\<close>
  "example_window =
     \<lparr>platform_win32 = True, window_search = Some 7,
      is_iconic = (\<lambda>hwnd. False),
      client_rect = (\<lambda>hwnd. Some (100, 100, 1100, 600))\<rparr>"

definition forest :: card where
  "forest = \<lparr>name = Some ''0044'', rarity = Some ''mythic'', types = Some [''Land''],
             colors = Some [''W''], color_identity = None\<rparr>"

definition shock :: card where
  "shock = \<lparr>name = Some ''Shock'', rarity = None, types = None,
            colors = Some [''R''], color_identity = None\<rparr>"

definition opt :: card where
  "opt = \<lparr>name = Some ''Opt'', rarity = None, types = None,
          colors = Some [''U''], color_identity = None\<rparr>"

definition wastes :: card where
  \<comment> \<open>a named colourless common land: the greatest key a named card can have in its
      first three components\<close>
  "wastes = \<lparr>name = Some ''Wastes'', rarity = Some ''common'', types = Some [''Land''],
             colors = None, color_identity = Some []\<rparr>"

definition tied_ratings :: "(string, real) dict" where
  "tied_ratings = [(''Shock'', 80), (''Opt'', 80)]"

definition scenario_ratings :: "(string, real) dict" where
  "scenario_ratings = [(''Shock'', 80), (''Opt'', 60)]"

definition shown_overlay :: in_game_overlay where
  \<comment> \<open>the overlay after one update with the flag on: three badges visible\<close>
  "shown_overlay =
     update default_configuration example_window init_overlay
       [forest, shock, opt] scenario_ratings 1"

definition cached_overlay :: in_game_overlay where
  \<comment> \<open>pack and ratings cached, no badge created yet\<close>
  "cached_overlay =
     init_overlay\<lparr>last_pack_cards := [forest, shock, opt],
                  last_ratings := scenario_ratings,
                  last_pick_number := 1\<rparr>"


definition failing_session :: session where
  \<comment> \<open>a model whose \<^verbatim>\<open>run\<close> raises\<close>
  "failing_session =
     \<lparr>get_inputs = [''collection'', ''pack''],
      run = (\<lambda>feeds. Inl (Exception ''invalid input shape''))\<rparr>"

definition example_vocabulary :: "string list" where
  "example_vocabulary = [''Shock'', ''Opt'', ''Wastes'']"

definition store_with :: "session \<Rightarrow> ml_env" where
  \<comment> \<open>a model store where every path exists and loading a model gives the session\<close>
  "store_with sess =
     \<lparr>ONNX_AVAILABLE = True,
      path_exists = (\<lambda>p. True),
      InferenceSession = (\<lambda>p. Inr sess),
      read_csv_names = (\<lambda>p. Inr example_vocabulary)\<rparr>"

definition empty_store :: ml_env where
  \<comment> \<open>a model store where no file exists\<close>
  "empty_store =
     \<lparr>ONNX_AVAILABLE = True,
      path_exists = (\<lambda>p. False),
      InferenceSession = (\<lambda>p. Inl (Exception ''no such file'')),
      read_csv_names = (\<lambda>p. Inl (Exception ''no such file''))\<rparr>"

definition corrupt_store :: ml_env where
  \<comment> \<open>a model store where the model file exists and loading it raises\<close>
  "corrupt_store =
     \<lparr>ONNX_AVAILABLE = True,
      path_exists = (\<lambda>p. True),
      InferenceSession = (\<lambda>p. Inl (Exception ''invalid protobuf'')),
      read_csv_names = (\<lambda>p. Inr example_vocabulary)\<rparr>"

definition fresh_calculator :: ml_rating_calculator where
  \<comment> \<open>\<^verbatim>\<open>MLRatingCalculator(MLModelManager("models"))\<close>\<close>
  "fresh_calculator =
     \<lparr>model_manager = \<lparr>model_directory = ''models'', sessions = [], cardnames = []\<rparr>,
      current_ratings = [], current_set = [], current_mode = []\<rparr>"

section \<open>Properties of the pack sort\<close>

lemma color_table_all: "list_all (\<lambda>v. v \<le> 31) COLOR_SORT_TABLE"
  by (simp add: COLOR_SORT_TABLE_def numeral_eq_Suc)

lemma and_31_less: "(n::nat) AND 31 < 32"
proof -
  have "n AND 31 = n mod 2 ^ 5"
    using take_bit_eq_mask[of 5 n] by (simp add: take_bit_eq_mod mask_eq_exp_minus_1)
  then show ?thesis by simp
qed

lemma color_order_le: "COLOR_SORT_TABLE ! (n AND 31) \<le> 31"
proof -
  have "length COLOR_SORT_TABLE = 32" by (simp add: COLOR_SORT_TABLE_def)
  with and_31_less[of n] color_table_all show ?thesis
    by (simp add: list_all_length)
qed

lemma rarity_le: "dict_get RARITY_ORDER r 3 \<le> 3"
  by (simp add: dict_get_def RARITY_ORDER_def)

lemma key_less:
  assumes "isdigit (card_name d)" and "\<not> isdigit (card_name c)"
  shows "mtga_draft_sort_key c < mtga_draft_sort_key d"
  using assms color_order_le[of "card_color_flags c"]
    rarity_le[of "case rarity c of None \<Rightarrow> ''common'' | Some r \<Rightarrow> r"]
  by (auto simp: mtga_draft_sort_key_def Let_def)

lemma sorted_sort_pack: "sorted (map mtga_draft_sort_key (sort_pack cards))"
  by (simp add: sort_pack_def)

text \<open>
  Claim C7. Sorting is idempotent: for every sequence of cards, sorting the sorted pack again
  returns it unchanged, and a sequence that is already in the order of the sort key is
  returned as it is.
\<close>

theorem sort_pack_idempotent:
  "sort_pack (sort_pack cards) = sort_pack cards
   \<and> (sorted (map mtga_draft_sort_key cards) \<longrightarrow> sort_pack cards = cards)"
proof (cases "cards = []")
  case True
  then show ?thesis by (simp add: sort_pack_def)
next
  case False
  have "sort_key mtga_draft_sort_key (sort_key mtga_draft_sort_key cards)
          = sort_key mtga_draft_sort_key cards"
    by (rule sort_key_id_if_sorted) simp
  with False show ?thesis by (simp add: sort_pack_def sort_key_id_if_sorted)
qed

theorem sort_pack_idempotent_witness:
  "sort_pack [forest, shock, opt] = [opt, shock, forest]
   \<and> sort_pack (sort_pack [forest, shock, opt]) = [opt, shock, forest]
   \<and> sorted (map mtga_draft_sort_key [opt, shock, forest])
   \<and> sort_pack [opt, shock, forest] = [opt, shock, forest]"
proof -
  have s: "sort_pack [forest, shock, opt] = [opt, shock, forest]"
    by code_simp
  have o: "sorted (map mtga_draft_sort_key [opt, shock, forest])"
    by code_simp
  from sort_pack_idempotent[of "[forest, shock, opt]"] s
  have "sort_pack (sort_pack [forest, shock, opt]) = [opt, shock, forest]" by simp
  moreover from sort_pack_idempotent[of "[opt, shock, forest]"] o
  have "sort_pack [opt, shock, forest] = [opt, shock, forest]" by blast
  ultimately show ?thesis using s o by blast
qed

text \<open>
  Claim C2. If the name of card \<open>d\<close> consists of digits only and the name of card \<open>c\<close> does
  not, the sort key of \<open>c\<close> is strictly less than the sort key of \<open>d\<close>, whatever rarity,
  types and colours the two cards declare; hence wherever both occur in a sorted pack, \<open>c\<close>
  comes before \<open>d\<close>.
\<close>

theorem digit_named_cards_sort_last:
  assumes "isdigit (card_name d)" and "\<not> isdigit (card_name c)"
  shows "mtga_draft_sort_key c < mtga_draft_sort_key d \<and>
         (\<forall>cards i j. i < length (sort_pack cards) \<and> j < length (sort_pack cards)
              \<and> sort_pack cards ! i = c \<and> sort_pack cards ! j = d \<longrightarrow> i < j)"
proof (intro conjI allI impI)
  show "mtga_draft_sort_key c < mtga_draft_sort_key d"
    by (rule key_less[OF assms])
next
  fix cards i j
  assume h: "i < length (sort_pack cards) \<and> j < length (sort_pack cards)
              \<and> sort_pack cards ! i = c \<and> sort_pack cards ! j = d"
  have lt: "mtga_draft_sort_key c < mtga_draft_sort_key d"
    by (rule key_less[OF assms])
  show "i < j"
  proof (rule ccontr)
    assume "\<not> i < j"
    then have "j \<le> i" by simp
    with h sorted_sort_pack[of cards]
    have "map mtga_draft_sort_key (sort_pack cards) ! j \<le> map mtga_draft_sort_key (sort_pack cards) ! i"
      by (intro sorted_nth_mono) simp_all
    with h have "mtga_draft_sort_key d \<le> mtga_draft_sort_key c" by simp
    with lt show False by simp
  qed
qed

theorem digit_named_cards_sort_last_witness:
  "isdigit (card_name forest) \<and> \<not> isdigit (card_name wastes)
   \<and> mtga_draft_sort_key wastes < mtga_draft_sort_key forest
   \<and> sort_pack [forest, wastes] ! 0 = wastes \<and> sort_pack [forest, wastes] ! 1 = forest"
proof -
  have d: "isdigit (card_name forest)"
    by (simp add: isdigit_def card_name_def forest_def digit_char_def)
  have n: "\<not> isdigit (card_name wastes)"
    by (simp add: isdigit_def card_name_def wastes_def digit_char_def)
  have s: "sort_pack [forest, wastes] ! 0 = wastes" "sort_pack [forest, wastes] ! 1 = forest"
    by code_simp+
  from digit_named_cards_sort_last[OF d n]
  have "mtga_draft_sort_key wastes < mtga_draft_sort_key forest"
    by (rule conjunct1)
  with d n s show ?thesis by blast
qed

section \<open>Properties of the position calculation\<close>



lemma length_calculate_card_positions:
  "length (calculate_card_positions cfg n (l, t, r, b)) =
     (if n \<le> 0 \<or> n > 15 \<or> r - l \<le> 0 \<or> b - t \<le> 0 then 0 else nat n)"
  by (simp add: calculate_card_positions_def Let_def split: prod.splits)

text \<open>
  Claim C3. For a card count from 1 to 15 and a rectangle of positive width and height the
  position calculation returns exactly as many coordinate pairs as there are cards; for a
  count that is 0, negative or above 15, or a rectangle whose width or height is not
  positive, it returns the empty list: both guards of the source return before any
  arithmetic is done, so nothing is raised there.
\<close>

theorem positions_count:
  "(1 \<le> n \<and> n \<le> 15 \<and> 0 < r - l \<and> 0 < b - t
      \<longrightarrow> int (length (calculate_card_positions cfg n (l, t, r, b))) = n)
   \<and> (n \<le> 0 \<or> 15 < n \<or> r - l \<le> 0 \<or> b - t \<le> 0
      \<longrightarrow> calculate_card_positions cfg n (l, t, r, b) = [])"
  using length_calculate_card_positions[of cfg n l t r b]
  by (auto simp del: length_0_conv)

theorem positions_count_witness:
  "int (length (calculate_card_positions default_configuration 3 (100, 100, 1100, 600))) = 3
   \<and> int (length (calculate_card_positions default_configuration 15 (100, 100, 1100, 600))) = 15
   \<and> calculate_card_positions default_configuration 0 (100, 100, 1100, 600) = []
   \<and> calculate_card_positions default_configuration (- 2) (100, 100, 1100, 600) = []
   \<and> calculate_card_positions default_configuration 16 (100, 100, 1100, 600) = []
   \<and> calculate_card_positions default_configuration 3 (100, 100, 100, 600) = []
   \<and> calculate_card_positions default_configuration 3 (100, 100, 1100, 50) = []"
  using positions_count[where n=3 and r=1100 and l=100 and b=600 and t=100 and cfg=default_configuration]
    positions_count[where n=15 and r=1100 and l=100 and b=600 and t=100 and cfg=default_configuration]
    positions_count[where n=0 and r=1100 and l=100 and b=600 and t=100 and cfg=default_configuration]
    positions_count[where n="- 2" and r=1100 and l=100 and b=600 and t=100 and cfg=default_configuration]
    positions_count[where n=16 and r=1100 and l=100 and b=600 and t=100 and cfg=default_configuration]
    positions_count[where n=3 and r=100 and l=100 and b=600 and t=100 and cfg=default_configuration]
    positions_count[where n=3 and r=1100 and l=100 and b=50 and t=100 and cfg=default_configuration]
  by simp




section \<open>Properties of the overlay\<close>

lemma length_show_badges [simp]:
  "length (show_badges dm best idx ps bs) = length bs"
  by (induction dm best idx ps bs rule: show_badges.induct) (simp_all add: Let_def)

lemma show_badges_Cons:
  "show_badges dm best idx (p # rest) bs =
     show_badges dm best (Suc idx) rest
       (bs[idx := show_badge (bs ! idx) (fst (fst p)) (snd (fst p)) (snd (snd p))
                    (snd (snd p) = best \<and> snd (snd p) > 0)
                    (if dm then Some (idx, fst (snd p)) else None)])"
  by (cases p) (auto simp add: Let_def)

lemma show_badges_nth:
  assumes "idx + length ps \<le> length bs" and "j < length bs"
  shows "show_badges dm best idx ps bs ! j =
           (if idx \<le> j \<and> j < idx + length ps
            then show_badge (bs ! j) (fst (fst (ps ! (j - idx)))) (snd (fst (ps ! (j - idx))))
                   (snd (snd (ps ! (j - idx))))
                   (snd (snd (ps ! (j - idx))) = best \<and> snd (snd (ps ! (j - idx))) > 0)
                   (if dm then Some (j, fst (snd (ps ! (j - idx)))) else None)
            else bs ! j)"
  using assms
proof (induction ps arbitrary: idx bs)
  case Nil
  have "\<not> (idx \<le> j \<and> j < idx + length ([] :: ((int \<times> int) \<times> (string \<times> real)) list))" by simp
  then show ?case by (simp only: show_badges.simps if_False)
next
  case (Cons p rest)
  let ?b = "show_badge (bs ! idx) (fst (fst p)) (snd (fst p)) (snd (snd p))
                    (snd (snd p) = best \<and> snd (snd p) > 0)
                    (if dm then Some (idx, fst (snd p)) else None)"
  have ih: "show_badges dm best (Suc idx) rest (bs[idx := ?b]) ! j =
           (if Suc idx \<le> j \<and> j < Suc idx + length rest
            then show_badge (bs[idx := ?b] ! j) (fst (fst (rest ! (j - Suc idx)))) (snd (fst (rest ! (j - Suc idx))))
                   (snd (snd (rest ! (j - Suc idx))))
                   (snd (snd (rest ! (j - Suc idx))) = best \<and> snd (snd (rest ! (j - Suc idx))) > 0)
                   (if dm then Some (j, fst (snd (rest ! (j - Suc idx)))) else None)
            else bs[idx := ?b] ! j)"
    using Cons.prems by (intro Cons.IH) simp_all
  show ?case
  proof (cases "j = idx")
    case True
    with Cons.prems show ?thesis unfolding show_badges_Cons ih by simp
  next
    case False
    then have "idx \<le> j \<Longrightarrow> (p # rest) ! (j - idx) = rest ! (j - Suc idx)"
      by (simp add: nth_Cons')
    with False Cons.prems show ?thesis unfolding show_badges_Cons ih by auto
  qed
qed

lemma fold_update_nth:
  assumes "distinct js" and "\<forall>k\<in>set js. k < length bs" and "j < length bs"
  shows "length (fold (\<lambda>idx acc. acc[idx := f (acc ! idx)]) js bs) = length bs
       \<and> fold (\<lambda>idx acc. acc[idx := f (acc ! idx)]) js bs ! j
           = (if j \<in> set js then f (bs ! j) else bs ! j)"
  using assms
proof (induction js arbitrary: bs)
  case Nil
  then show ?case by simp
next
  case (Cons k js)
  from Cons.prems have "distinct js" "\<forall>k'\<in>set js. k' < length (bs[k := f (bs ! k)])"
    "j < length (bs[k := f (bs ! k)])" "k \<notin> set js" "k < length bs"
    by simp_all
  with Cons.IH[of "bs[k := f (bs ! k)]"] show ?case
    by (auto simp: nth_list_update)
qed

lemma length_hide_extra [simp]: "length (hide_extra n bs) = length bs"
proof -
  have "\<forall>acc. length (fold (\<lambda>idx acc. acc[idx := hide_badge (acc ! idx)]) js acc) = length acc" for js
    by (induction js) simp_all
  then show ?thesis by (simp add: hide_extra_def)
qed

lemma hide_extra_nth:
  assumes "j < length bs"
  shows "hide_extra n bs ! j = (if n \<le> j then hide_badge (bs ! j) else bs ! j)"
  using fold_update_nth[of "[n..<length bs]" bs j hide_badge] assms
  by (simp add: hide_extra_def)

lemma py_max_default_greatest:
  assumes "xs \<noteq> []"
  shows "py_max_default xs d \<in> set xs \<and> (\<forall>x\<in>set xs. x \<le> py_max_default xs d)"
proof -
  have fold: "foldl (\<lambda>m v. if v > m then v else m) x rest \<in> set (x # rest)
      \<and> (\<forall>y\<in>set (x # rest). y \<le> foldl (\<lambda>m v. if v > m then v else m) x rest)"
    for x :: real and rest
  proof (induction rest arbitrary: x)
    case Nil
    then show ?case by simp
  next
    case (Cons a rest)
    show ?case using Cons.IH[of "if a > x then a else x"]
      by (auto split: if_splits)
  qed
  from assms obtain x rest where "xs = x # rest" by (cases xs) auto
  with fold[of x rest] show ?thesis by (simp add: py_max_default_def)
qed

lemma tier_colors_gold:
  "(tier_colors rating is_best = (''#FFD700'', ''#000000'')) = is_best"
  by (simp add: tier_colors_def)

lemma best_highlight_show_badge [simp]:
  "best_highlight (show_badge b x y rating is_best dbg) = is_best"
  using tier_colors_gold[of rating is_best]
  by (cases "tier_colors rating is_best") (auto simp add: best_highlight_def show_badge_def)

lemma length_sort_pack [simp]: "length (sort_pack cards) = length cards"
  by (simp add: sort_pack_def)

lemma sort_pack_Nil_iff [simp]: "sort_pack cards = [] \<longleftrightarrow> cards = []"
  by (metis length_0_conv length_sort_pack)

lemma position_badges_located:
  assumes "last_pack_cards s \<noteq> []" and "last_ratings s \<noteq> []"
    and "find_mtga_window env = Some hwnd" and "\<not> is_minimized env hwnd"
    and "get_mtga_rect env hwnd = Some (l, t, r, b)" and "l < r" and "t < b"
    and "length (last_pack_cards s) \<le> 15"
  shows "position_badges cfg env s =
           s\<lparr>last_mtga_rect := Some (l, t, r, b),
             badges := hide_extra (length (last_pack_cards s))
               (show_badges (getattr (ingame_overlay_debug (features cfg)) False)
                  (py_max_default
                     (map snd (card_ratings_of (last_ratings s) (sort_pack (last_pack_cards s)))) 0)
                  0
                  (zip (calculate_card_positions cfg (int (length (last_pack_cards s))) (l, t, r, b))
                       (card_ratings_of (last_ratings s) (sort_pack (last_pack_cards s))))
                  (badges s @ replicate (length (last_pack_cards s) - length (badges s)) new_badge))\<rparr>"
proof -
  have len: "length (calculate_card_positions cfg (int (length (last_pack_cards s))) (l, t, r, b))
               = length (last_pack_cards s)"
    using assms by (simp add: length_calculate_card_positions)
  show ?thesis
    using assms(1-5) len by (simp add: position_badges_def Let_def)
qed

lemma positioned_badge:
  assumes "last_pack_cards s \<noteq> []" and "last_ratings s \<noteq> []"
    and "find_mtga_window env = Some hwnd" and "\<not> is_minimized env hwnd"
    and "get_mtga_rect env hwnd = Some (l, t, r, b)" and "l < r" and "t < b"
    and "length (last_pack_cards s) \<le> 15"
    and "i < length (last_pack_cards s)"
  shows "badges (position_badges cfg env s) ! i =
           show_badge
             ((badges s @ replicate (length (last_pack_cards s) - length (badges s)) new_badge) ! i)
             (fst (calculate_card_positions cfg (int (length (last_pack_cards s))) (l, t, r, b) ! i))
             (snd (calculate_card_positions cfg (int (length (last_pack_cards s))) (l, t, r, b) ! i))
             (card_rating_at s i)
             (card_rating_at s i = py_max_default
                     (map snd (card_ratings_of (last_ratings s) (sort_pack (last_pack_cards s)))) 0
               \<and> card_rating_at s i > 0)
             (if getattr (ingame_overlay_debug (features cfg)) False
              then Some (i, card_name (sort_pack (last_pack_cards s) ! i)) else None)"
proof -
  let ?n = "length (last_pack_cards s)"
  let ?grown = "badges s @ replicate (?n - length (badges s)) new_badge"
  let ?pos = "calculate_card_positions cfg (int ?n) (l, t, r, b)"
  let ?cr = "card_ratings_of (last_ratings s) (sort_pack (last_pack_cards s))"
  let ?best = "py_max_default (map snd ?cr) 0"
  let ?dm = "getattr (ingame_overlay_debug (features cfg)) False"
  have lenpos: "length ?pos = ?n"
    using assms by (simp add: length_calculate_card_positions)
  have lencr: "length ?cr = ?n"
    by (simp add: card_ratings_of_def)
  have lenp: "length (zip ?pos ?cr) = ?n"
    using lenpos lencr by simp
  have leng: "?n \<le> length ?grown" by simp
  have i: "i < length ?grown" using assms(9) leng by linarith
  have zi: "zip ?pos ?cr ! i = (?pos ! i, ?cr ! i)"
    using assms(9) lenpos lencr by simp
  have cri: "?cr ! i = (card_name (sort_pack (last_pack_cards s) ! i), card_rating_at s i)"
    using assms(9) by (simp add: card_ratings_of_def card_rating_at_def Let_def)
  have "badges (position_badges cfg env s) ! i
          = hide_extra ?n (show_badges ?dm ?best 0 (zip ?pos ?cr) ?grown) ! i"
    by (simp add: position_badges_located[OF assms(1-8)])
  also have "\<dots> = show_badges ?dm ?best 0 (zip ?pos ?cr) ?grown ! i"
    using i assms(9) by (subst hide_extra_nth) simp_all
  also have "\<dots> = show_badge (?grown ! i) (fst (fst (zip ?pos ?cr ! (i - 0))))
                   (snd (fst (zip ?pos ?cr ! (i - 0))))
                   (snd (snd (zip ?pos ?cr ! (i - 0))))
                   (snd (snd (zip ?pos ?cr ! (i - 0))) = ?best \<and> snd (snd (zip ?pos ?cr ! (i - 0))) > 0)
                   (if ?dm then Some (i, fst (snd (zip ?pos ?cr ! (i - 0)))) else None)"
    using i assms(9) lenp leng by (subst show_badges_nth) simp_all
  finally show ?thesis
    by (simp only: zi cri fst_conv snd_conv diff_zero)
qed

lemma card_rating_at_in_set:
  assumes "j < length (last_pack_cards s)"
  shows "card_rating_at s j
           \<in> set (map snd (card_ratings_of (last_ratings s) (sort_pack (last_pack_cards s))))"
proof -
  have "j < length (map snd (card_ratings_of (last_ratings s) (sort_pack (last_pack_cards s))))"
    using assms by (simp add: card_ratings_of_def)
  then have "map snd (card_ratings_of (last_ratings s) (sort_pack (last_pack_cards s))) ! j
               \<in> set (map snd (card_ratings_of (last_ratings s) (sort_pack (last_pack_cards s))))"
    by (rule nth_mem)
  then show ?thesis
    using assms by (simp add: card_rating_at_def card_ratings_of_def)
qed

lemma best_rating_iff:
  assumes "i < length (last_pack_cards s)"
  shows "card_rating_at s i
           = py_max_default
               (map snd (card_ratings_of (last_ratings s) (sort_pack (last_pack_cards s)))) 0
         \<longleftrightarrow> (\<forall>j < length (last_pack_cards s). card_rating_at s j \<le> card_rating_at s i)"
proof -
  let ?rs = "map snd (card_ratings_of (last_ratings s) (sort_pack (last_pack_cards s)))"
  have ne: "?rs \<noteq> []" using assms by (auto simp: card_ratings_of_def)
  have len: "length ?rs = length (last_pack_cards s)" by (simp add: card_ratings_of_def)
  have nth: "?rs ! j = card_rating_at s j" if "j < length (last_pack_cards s)" for j
    using that by (simp add: card_rating_at_def card_ratings_of_def)
  from py_max_default_greatest[OF ne, of 0]
  have mem: "py_max_default ?rs 0 \<in> set ?rs" and ub: "\<forall>x\<in>set ?rs. x \<le> py_max_default ?rs 0"
    by simp_all
  show ?thesis
  proof
    assume eq: "card_rating_at s i = py_max_default ?rs 0"
    show "\<forall>j < length (last_pack_cards s). card_rating_at s j \<le> card_rating_at s i"
    proof (intro allI impI)
      fix j assume "j < length (last_pack_cards s)"
      from ub card_rating_at_in_set[OF this]
      have "card_rating_at s j \<le> py_max_default ?rs 0" by (rule bspec)
      with eq show "card_rating_at s j \<le> card_rating_at s i" by simp
    qed
  next
    assume all: "\<forall>j < length (last_pack_cards s). card_rating_at s j \<le> card_rating_at s i"
    from mem obtain k where k: "k < length ?rs" "?rs ! k = py_max_default ?rs 0"
      by (auto simp: in_set_conv_nth)
    with len nth[of k] all have "py_max_default ?rs 0 \<le> card_rating_at s i" by auto
    moreover have "card_rating_at s i \<le> py_max_default ?rs 0"
      using ub card_rating_at_in_set[OF assms] by (rule bspec)
    ultimately show "card_rating_at s i = py_max_default ?rs 0" by simp
  qed
qed

lemma example_located:
  "find_mtga_window example_window = Some 7"
  "\<not> is_minimized example_window 7"
  "get_mtga_rect example_window 7 = Some (100, 100, 1100, 600)"
  by (simp_all add: find_mtga_window_def is_minimized_def get_mtga_rect_def example_window_def)

lemma cached_overlay_simps:
  "last_pack_cards cached_overlay = [forest, shock, opt]"
  "last_ratings cached_overlay = scenario_ratings"
  "badges cached_overlay = []"
  by (simp_all add: cached_overlay_def init_overlay_def)

lemma cached_overlay_ratings:
  "card_rating_at cached_overlay 0 = 60"
  "card_rating_at cached_overlay 1 = 80"
  "card_rating_at cached_overlay (Suc 0) = 80"
  "card_rating_at cached_overlay 2 = 0"
  "map card_name (sort_pack (last_pack_cards cached_overlay)) = [''Opt'', ''Shock'', ''0044'']"
  by code_simp+

lemma hide_badge_idem [simp]: "hide_badge (hide_badge b) = hide_badge b"
  by (simp add: hide_badge_def)

lemma not_visible_hide_badge [simp]: "\<not> visible (hide_badge b)"
  by (simp add: hide_badge_def)

lemma show_badge_indep: "show_badge b x y rating is_best dbg = show_badge b' x y rating is_best dbg"
  by (cases "tier_colors rating is_best") (simp add: show_badge_def)

lemma hide_all_badges_fields [simp]:
  "last_pack_cards (hide_all_badges s) = last_pack_cards s"
  "last_ratings (hide_all_badges s) = last_ratings s"
  "last_pick_number (hide_all_badges s) = last_pick_number s"
  "last_mtga_rect (hide_all_badges s) = last_mtga_rect s"
  "badges (hide_all_badges s) = map hide_badge (badges s)"
  by (simp_all add: hide_all_badges_def)

lemma hide_all_badges_idem [simp]: "hide_all_badges (hide_all_badges s) = hide_all_badges s"
  by (simp add: hide_all_badges_def)

lemma card_rating_at_hide_all [simp]:
  "card_rating_at (hide_all_badges s) i = card_rating_at s i"
  by (simp add: card_rating_at_def)

lemma length_positioned_badges:
  assumes "last_pack_cards s \<noteq> []" and "last_ratings s \<noteq> []"
    and "find_mtga_window env = Some hwnd" and "\<not> is_minimized env hwnd"
    and "get_mtga_rect env hwnd = Some (l, t, r, b)" and "l < r" and "t < b"
    and "length (last_pack_cards s) \<le> 15"
  shows "length (badges (position_badges cfg env s))
           = max (length (last_pack_cards s)) (length (badges s))"
  by (simp add: position_badges_located[OF assms])

lemma positioned_extra:
  assumes "last_pack_cards s \<noteq> []" and "last_ratings s \<noteq> []"
    and "find_mtga_window env = Some hwnd" and "\<not> is_minimized env hwnd"
    and "get_mtga_rect env hwnd = Some (l, t, r, b)" and "l < r" and "t < b"
    and "length (last_pack_cards s) \<le> 15"
    and "length (last_pack_cards s) \<le> i" and "i < length (badges s)"
  shows "badges (position_badges cfg env s) ! i = hide_badge (badges s ! i)"
proof -
  let ?n = "length (last_pack_cards s)"
  let ?grown = "badges s @ replicate (?n - length (badges s)) new_badge"
  let ?pos = "calculate_card_positions cfg (int ?n) (l, t, r, b)"
  let ?cr = "card_ratings_of (last_ratings s) (sort_pack (last_pack_cards s))"
  let ?best = "py_max_default (map snd ?cr) 0"
  let ?dm = "getattr (ingame_overlay_debug (features cfg)) False"
  have lenp: "length (zip ?pos ?cr) = ?n"
    using assms by (simp add: length_calculate_card_positions card_ratings_of_def)
  have g: "?grown = badges s" using assms(9,10) by simp
  have "badges (position_badges cfg env s) ! i
          = hide_extra ?n (show_badges ?dm ?best 0 (zip ?pos ?cr) ?grown) ! i"
    by (simp add: position_badges_located[OF assms(1-8)])
  also have "\<dots> = hide_badge (show_badges ?dm ?best 0 (zip ?pos ?cr) (badges s) ! i)"
    unfolding g using assms(9,10) by (subst hide_extra_nth) simp_all
  also have "show_badges ?dm ?best 0 (zip ?pos ?cr) (badges s) ! i = badges s ! i"
    using assms(9,10) lenp by (subst show_badges_nth) simp_all
  finally show ?thesis .
qed

lemma position_badges_located_form:
  assumes "last_pack_cards s \<noteq> []" and "last_ratings s \<noteq> []"
    and "find_mtga_window env = Some hwnd" and "\<not> is_minimized env hwnd"
    and "get_mtga_rect env hwnd = Some (l, t, r, b)" and "l < r" and "t < b"
    and "length (last_pack_cards s) \<le> 15"
  shows "position_badges cfg env s =
           s\<lparr>last_mtga_rect := Some (l, t, r, b),
             badges := badges (position_badges cfg env s)\<rparr>"
  unfolding position_badges_located[OF assms] by simp

lemma position_badges_hide_all_located:
  assumes a: "last_pack_cards s \<noteq> []" "last_ratings s \<noteq> []"
       "find_mtga_window env = Some hwnd" "\<not> is_minimized env hwnd"
       "get_mtga_rect env hwnd = Some (l, t, r, b)" "l < r" "t < b"
       "length (last_pack_cards s) \<le> 15"
  shows "position_badges cfg env (hide_all_badges s) = position_badges cfg env s"
proof -
  let ?h = "hide_all_badges s"
  have a': "last_pack_cards ?h \<noteq> []" "last_ratings ?h \<noteq> []"
       "find_mtga_window env = Some hwnd" "\<not> is_minimized env hwnd"
       "get_mtga_rect env hwnd = Some (l, t, r, b)" "l < r" "t < b"
       "length (last_pack_cards ?h) \<le> 15"
    using a by simp_all
  have bs: "badges (position_badges cfg env ?h) = badges (position_badges cfg env s)"
  proof (rule nth_equalityI)
    show "length (badges (position_badges cfg env ?h)) = length (badges (position_badges cfg env s))"
      by (simp add: length_positioned_badges[OF a] length_positioned_badges[OF a'])
  next
    fix i assume "i < length (badges (position_badges cfg env ?h))"
    then have i: "i < max (length (last_pack_cards s)) (length (badges s))"
      by (simp add: length_positioned_badges[OF a'])
    show "badges (position_badges cfg env ?h) ! i = badges (position_badges cfg env s) ! i"
    proof (cases "i < length (last_pack_cards s)")
      case True
      then have "i < length (last_pack_cards ?h)" by simp
      from positioned_badge[OF a' this] positioned_badge[OF a True]
      show ?thesis by (simp add: show_badge_indep[of "_ ! i" _ _ _ _ _ "_ ! i"])
    next
      case False
      with i have i': "length (last_pack_cards s) \<le> i" "i < length (badges s)" by simp_all
      then have "length (last_pack_cards ?h) \<le> i" "i < length (badges ?h)" by simp_all
      from positioned_extra[OF a' this] positioned_extra[OF a i'] i'
      show ?thesis by simp
    qed
  qed
  have "position_badges cfg env ?h
          = s\<lparr>last_mtga_rect := Some (l, t, r, b), badges := badges (position_badges cfg env ?h)\<rparr>"
    by (subst position_badges_located_form[OF a']) (simp add: hide_all_badges_def)
  also have "\<dots> = position_badges cfg env s"
    unfolding bs by (rule position_badges_located_form[OF a, symmetric])
  finally show ?thesis .
qed

lemma position_badges_hide_all:
  "position_badges cfg env (hide_all_badges s) = position_badges cfg env s"
proof (cases "last_pack_cards s = [] \<or> last_ratings s = []")
  case True
  then show ?thesis by (auto simp add: position_badges_def)
next
  case ne: False
  show ?thesis
  proof (cases "find_mtga_window env")
    case None
    with ne show ?thesis by (simp add: position_badges_def)
  next
    case (Some hwnd)
    show ?thesis
    proof (cases "is_minimized env hwnd")
      case True
      with ne Some show ?thesis by (simp add: position_badges_def)
    next
      case nm: False
      show ?thesis
      proof (cases "get_mtga_rect env hwnd")
        case None
        with ne Some nm show ?thesis by (simp add: position_badges_def)
      next
        case rect: (Some rc)
        obtain l t r b where rc: "rc = (l, t, r, b)" by (cases rc) auto
        show ?thesis
        proof (cases "l < r \<and> t < b \<and> length (last_pack_cards s) \<le> 15")
          case True
          with ne Some nm rect rc show ?thesis
            by (intro position_badges_hide_all_located[of s env hwnd l t r b]) simp_all
        next
          case False
          then have len: "length (calculate_card_positions cfg (int (length (last_pack_cards s))) (l, t, r, b))
                          \<noteq> length (last_pack_cards s)"
            using ne by (auto simp add: length_calculate_card_positions)
          with ne Some nm rect rc show ?thesis
            by (simp add: position_badges_def Let_def hide_all_badges_def)
        qed
      qed
    qed
  qed
qed

lemma position_badges_cache [simp]:
  "last_pack_cards (position_badges cfg env s) = last_pack_cards s"
  "last_ratings (position_badges cfg env s) = last_ratings s"
  "last_pick_number (position_badges cfg env s) = last_pick_number s"
  by (simp_all add: position_badges_def Let_def split: option.splits)

lemma card_rating_at_cache:
  "last_pack_cards s' = last_pack_cards s \<Longrightarrow> last_ratings s' = last_ratings s
     \<Longrightarrow> card_rating_at s' i = card_rating_at s i"
  by (simp add: card_rating_at_def)

lemma position_badges_idem_located:
  assumes a: "last_pack_cards s \<noteq> []" "last_ratings s \<noteq> []"
       "find_mtga_window env = Some hwnd" "\<not> is_minimized env hwnd"
       "get_mtga_rect env hwnd = Some (l, t, r, b)" "l < r" "t < b"
       "length (last_pack_cards s) \<le> 15"
  shows "position_badges cfg env (position_badges cfg env s) = position_badges cfg env s"
proof -
  let ?p = "position_badges cfg env s"
  have a': "last_pack_cards ?p \<noteq> []" "last_ratings ?p \<noteq> []"
       "find_mtga_window env = Some hwnd" "\<not> is_minimized env hwnd"
       "get_mtga_rect env hwnd = Some (l, t, r, b)" "l < r" "t < b"
       "length (last_pack_cards ?p) \<le> 15"
    using a by simp_all
  have bs: "badges (position_badges cfg env ?p) = badges ?p"
  proof (rule nth_equalityI)
    show "length (badges (position_badges cfg env ?p)) = length (badges ?p)"
      by (simp add: length_positioned_badges[OF a] length_positioned_badges[OF a'])
  next
    fix i assume "i < length (badges (position_badges cfg env ?p))"
    then have i: "i < max (length (last_pack_cards s)) (length (badges s))"
      by (simp add: length_positioned_badges[OF a'] length_positioned_badges[OF a])
    show "badges (position_badges cfg env ?p) ! i = badges ?p ! i"
    proof (cases "i < length (last_pack_cards s)")
      case True
      then have "i < length (last_pack_cards ?p)" by simp
      from positioned_badge[OF a' this] positioned_badge[OF a True]
      show ?thesis
        by (simp add: card_rating_at_cache[of ?p s] show_badge_indep[of "_ ! i" _ _ _ _ _ "_ ! i"])
    next
      case False
      with i have i': "length (last_pack_cards s) \<le> i" "i < length (badges s)" by simp_all
      then have "length (last_pack_cards ?p) \<le> i" "i < length (badges ?p)"
        by (simp_all add: length_positioned_badges[OF a])
      from positioned_extra[OF a' this] positioned_extra[OF a i']
      show ?thesis by simp
    qed
  qed
  have "position_badges cfg env ?p
          = ?p\<lparr>last_mtga_rect := Some (l, t, r, b), badges := badges ?p\<rparr>"
    by (subst position_badges_located_form[OF a']) (simp add: bs)
  also have "\<dots> = ?p"
    by (subst (3) position_badges_located_form[OF a]) simp
  finally show ?thesis .
qed

lemma position_badges_idem:
  "position_badges cfg env (position_badges cfg env s) = position_badges cfg env s"
proof (cases "last_pack_cards s = [] \<or> last_ratings s = []")
  case True
  then have "position_badges cfg env s = hide_all_badges s"
    by (auto simp add: position_badges_def)
  then show ?thesis by (simp add: position_badges_hide_all)
next
  case ne: False
  show ?thesis
  proof (cases "find_mtga_window env")
    case None
    with ne have "position_badges cfg env s = hide_all_badges s"
      by (simp add: position_badges_def)
    then show ?thesis by (simp add: position_badges_hide_all)
  next
    case (Some hwnd)
    show ?thesis
    proof (cases "is_minimized env hwnd")
      case True
      with ne Some have "position_badges cfg env s = hide_all_badges s"
        by (simp add: position_badges_def)
      then show ?thesis by (simp add: position_badges_hide_all)
    next
      case nm: False
      show ?thesis
      proof (cases "get_mtga_rect env hwnd")
        case None
        with ne Some nm have "position_badges cfg env s = hide_all_badges s"
          by (simp add: position_badges_def)
        then show ?thesis by (simp add: position_badges_hide_all)
      next
        case rect: (Some rc)
        obtain l t r b where rc: "rc = (l, t, r, b)" by (cases rc) auto
        show ?thesis
        proof (cases "l < r \<and> t < b \<and> length (last_pack_cards s) \<le> 15")
          case True
          with ne Some nm rect rc show ?thesis
            by (intro position_badges_idem_located[of s env hwnd l t r b]) simp_all
        next
          case False
          then have len: "length (calculate_card_positions cfg (int (length (last_pack_cards s))) (l, t, r, b))
                          \<noteq> length (last_pack_cards s)"
            using ne by (auto simp add: length_calculate_card_positions)
          have p: "position_badges cfg env (s\<lparr>last_mtga_rect := Some rc\<rparr>)
                     = hide_all_badges (s\<lparr>last_mtga_rect := Some rc\<rparr>)"
            using ne Some nm rect rc len by (simp add: position_badges_def Let_def hide_all_badges_def)
          have "position_badges cfg env s = hide_all_badges (s\<lparr>last_mtga_rect := Some rc\<rparr>)"
            using ne Some nm rect rc len by (simp add: position_badges_def Let_def)
          then show ?thesis by (simp add: position_badges_hide_all p)
        qed
      qed
    qed
  qed
qed

lemma update_repositions:
  assumes "ingame_overlay_enabled (settings cfg)" and "platform_win32 env"
  shows "update cfg env s pack_cards ratings_dict pick_number
           = position_badges cfg env
               (s\<lparr>last_pack_cards := pack_cards, last_ratings := ratings_dict,
                  last_pick_number := pick_number\<rparr>)"
  using assms by (simp add: update_def)

lemma poll_tick_repositions:
  assumes "ingame_overlay_enabled (settings cfg)"
    and "last_pack_cards s \<noteq> []" and "last_ratings s \<noteq> []"
  shows "poll_tick cfg env s = position_badges cfg env s"
  using assms by (simp add: poll_tick_def)

lemma shown_overlay_eq:
  "shown_overlay = position_badges default_configuration example_window cached_overlay"
  by (simp add: shown_overlay_def update_def default_configuration_def example_window_def
        cached_overlay_def)

text \<open>
  Claim C1, as the source has it. The reposition step succeeds when pack and ratings are
  cached, the window is found, not minimised, its rectangle is read with positive width and
  height, and the pack has at most 15 cards; \<^const>\<open>update\<close> and \<^const>\<open>poll_tick\<close> both
  run this step. After it, the badge of card \<open>i\<close> of the sorted pack wears the best-in-pack
  highlight exactly when the rating of that card is greater than 0 and no card of the pack
  has a greater rating. Every card tied at the maximum is marked, and a card whose rating is
  exactly 0 is never marked.
\<close>

theorem best_in_pack_marks_every_maximum:
  assumes "last_pack_cards s \<noteq> []" and "last_ratings s \<noteq> []"
    and "find_mtga_window env = Some hwnd" and "\<not> is_minimized env hwnd"
    and "get_mtga_rect env hwnd = Some (l, t, r, b)" and "l < r" and "t < b"
    and "length (last_pack_cards s) \<le> 15"
    and "i < length (last_pack_cards s)"
  shows "(best_highlight (badges (position_badges cfg env s) ! i)
            \<longleftrightarrow> 0 < card_rating_at s i
                \<and> (\<forall>j < length (last_pack_cards s). card_rating_at s j \<le> card_rating_at s i))
         \<and> (card_rating_at s i = 0
              \<longrightarrow> \<not> best_highlight (badges (position_badges cfg env s) ! i))"
  using best_rating_iff[OF assms(9)]
  by (auto simp add: positioned_badge[OF assms])

theorem best_in_pack_marks_every_maximum_witness:
  "best_highlight (badges (position_badges default_configuration example_window cached_overlay) ! 1)
   \<and> \<not> best_highlight (badges (position_badges default_configuration example_window cached_overlay) ! 0)
   \<and> \<not> best_highlight (badges (position_badges default_configuration example_window cached_overlay) ! 2)"
proof -
  have ne: "last_pack_cards cached_overlay \<noteq> []" "last_ratings cached_overlay \<noteq> []"
    by (simp_all add: cached_overlay_simps scenario_ratings_def)
  have sz: "length (last_pack_cards cached_overlay) \<le> 15"
    by (simp add: cached_overlay_simps)
  have w: "(100::int) < 1100" "(100::int) < 600" by simp_all
  note t = best_in_pack_marks_every_maximum[OF ne example_located w sz,
      where cfg = default_configuration]
  have all3: "(\<forall>j<length (last_pack_cards cached_overlay). P j) \<longleftrightarrow> P 0 \<and> P 1 \<and> P 2" for P
    by (auto simp add: cached_overlay_simps numeral_3_eq_3 All_less_Suc eval_nat_numeral)
  have "0 < length (last_pack_cards cached_overlay)" "1 < length (last_pack_cards cached_overlay)"
    "2 < length (last_pack_cards cached_overlay)"
    by (simp_all add: cached_overlay_simps)
  from t[OF this(1)] t[OF this(2)] t[OF this(3)] show ?thesis
    unfolding all3 by (simp add: cached_overlay_ratings)
qed

text \<open>
  Claim C1, as stated, fails: with the ratings of two cards tied at the maximum, the
  reposition step marks two badge slots, not exactly one.
\<close>

theorem best_in_pack_two_marked:
  "length (filter best_highlight
     (badges (update default_configuration example_window init_overlay
                [forest, shock, opt] tied_ratings 1))) = 2"
  by code_simp



text \<open>
  Claim C9. A call of \<^const>\<open>update\<close> made while the enable flag is off leaves the cached
  pack, ratings and pick number as they were, whatever arguments it is given, and leaves no
  badge visible.
\<close>

theorem update_disabled_keeps_cache:
  assumes "\<not> ingame_overlay_enabled (settings cfg)"
  shows "last_pack_cards (update cfg env s pack_cards ratings_dict pick_number) = last_pack_cards s
       \<and> last_ratings (update cfg env s pack_cards ratings_dict pick_number) = last_ratings s
       \<and> last_pick_number (update cfg env s pack_cards ratings_dict pick_number) = last_pick_number s
       \<and> (\<forall>b \<in> set (badges (update cfg env s pack_cards ratings_dict pick_number)). \<not> visible b)"
  using assms by (auto simp add: update_def)

theorem update_disabled_keeps_cache_witness:
  "list_all visible (badges shown_overlay) \<and> length (badges shown_overlay) = 3
   \<and> last_pack_cards (update disabled_configuration example_window shown_overlay [wastes] tied_ratings 2)
        = [forest, shock, opt]
   \<and> last_ratings (update disabled_configuration example_window shown_overlay [wastes] tied_ratings 2)
        = scenario_ratings
   \<and> last_pick_number (update disabled_configuration example_window shown_overlay [wastes] tied_ratings 2)
        = 1
   \<and> list_all (\<lambda>b. \<not> visible b)
         (badges (update disabled_configuration example_window shown_overlay [wastes] tied_ratings 2))"
proof -
  have off: "\<not> ingame_overlay_enabled (settings disabled_configuration)"
    by (simp add: disabled_configuration_def)
  have vis: "list_all visible (badges shown_overlay) \<and> length (badges shown_overlay) = 3"
    by code_simp
  have cache: "last_pack_cards shown_overlay = [forest, shock, opt]"
    "last_ratings shown_overlay = scenario_ratings" "last_pick_number shown_overlay = 1"
    by (simp_all add: shown_overlay_eq cached_overlay_def init_overlay_def)
  from update_disabled_keeps_cache[OF off, of example_window shown_overlay "[wastes]" tied_ratings 2]
    vis cache
  show ?thesis by (simp add: list_all_iff)
qed

text \<open>
  Claim C8, as stated, fails: with three badges visible and the enable flag turned off, a
  badge is still visible after the next tick.
\<close>

theorem tick_disabled_badges_stay_visible:
  "list_ex visible (badges (poll_tick disabled_configuration example_window shown_overlay))"
  by code_simp

text \<open>
  Claim C8, as the source has it. With the enable flag off a tick changes nothing: the badges
  stay as they were and the cached pack, ratings and pick number are kept. The badges are
  hidden by the next call of \<^const>\<open>update\<close> made with the flag off, which keeps the cache
  as well. Once the flag is on again, the next tick repositions the badges from the cache; it
  gives the state a reposition of the state before hiding gives, which is that state itself
  when its badges had been placed in the same window.
\<close>

theorem tick_disabled_changes_nothing:
  assumes "\<not> ingame_overlay_enabled (settings cfg_off)"
    and "ingame_overlay_enabled (settings cfg_on)"
    and "last_pack_cards s \<noteq> []" and "last_ratings s \<noteq> []"
  shows "poll_tick cfg_off env s = s
       \<and> last_pack_cards (update cfg_off env s pack_cards ratings_dict pick_number) = last_pack_cards s
       \<and> last_ratings (update cfg_off env s pack_cards ratings_dict pick_number) = last_ratings s
       \<and> last_pick_number (update cfg_off env s pack_cards ratings_dict pick_number) = last_pick_number s
       \<and> (\<forall>b \<in> set (badges (update cfg_off env s pack_cards ratings_dict pick_number)). \<not> visible b)
       \<and> poll_tick cfg_on env (update cfg_off env (poll_tick cfg_off env s) pack_cards ratings_dict pick_number)
           = position_badges cfg_on env s
       \<and> (s = position_badges cfg_on env s \<longrightarrow>
            poll_tick cfg_on env
              (update cfg_off env (poll_tick cfg_off env s) pack_cards ratings_dict pick_number) = s)"
proof -
  have tick: "poll_tick cfg_off env s = s"
    using assms(1) by (simp add: poll_tick_def)
  have upd: "update cfg_off env s pack_cards ratings_dict pick_number = hide_all_badges s"
    using assms(1) by (simp add: update_def)
  have re: "poll_tick cfg_on env (hide_all_badges s) = position_badges cfg_on env s"
    using assms(2-4) by (simp add: poll_tick_def position_badges_hide_all)
  show ?thesis
    unfolding tick upd re by auto
qed

theorem tick_disabled_changes_nothing_witness:
  "poll_tick disabled_configuration example_window shown_overlay = shown_overlay
   \<and> list_all visible (badges shown_overlay)
   \<and> last_pack_cards (update disabled_configuration example_window shown_overlay [] [] 0)
        = last_pack_cards shown_overlay
   \<and> last_ratings (update disabled_configuration example_window shown_overlay [] [] 0)
        = last_ratings shown_overlay
   \<and> last_pick_number (update disabled_configuration example_window shown_overlay [] [] 0)
        = last_pick_number shown_overlay
   \<and> list_all (\<lambda>b. \<not> visible b)
         (badges (update disabled_configuration example_window shown_overlay [] [] 0))
   \<and> poll_tick default_configuration example_window
        (update disabled_configuration example_window
           (poll_tick disabled_configuration example_window shown_overlay) [] [] 0)
       = shown_overlay"
proof -
  have off: "\<not> ingame_overlay_enabled (settings disabled_configuration)"
    by (simp add: disabled_configuration_def)
  have on: "ingame_overlay_enabled (settings default_configuration)"
    by (simp add: default_configuration_def)
  have ne: "last_pack_cards shown_overlay \<noteq> []" "last_ratings shown_overlay \<noteq> []"
    by (simp_all add: shown_overlay_eq cached_overlay_def init_overlay_def scenario_ratings_def)
  have fp: "position_badges default_configuration example_window shown_overlay = shown_overlay"
    by (simp add: shown_overlay_eq position_badges_idem)
  have vis: "list_all visible (badges shown_overlay)"
    by code_simp
  from tick_disabled_changes_nothing[OF off on ne, of example_window "[]" "[]" 0] fp vis
  show ?thesis by (auto simp add: list_all_iff)
qed

section \<open>Properties of the rating engine\<close>

lemma try_modes_None:
  "fst (try_modes env mgr set_code cache_key modes) = None
     \<Longrightarrow> snd (try_modes env mgr set_code cache_key modes) = mgr"
  by (induction modes) (auto simp add: Let_def split: if_splits sum.splits)

lemma try_modes_Some:
  "try_modes env mgr set_code cache_key modes = (Some sess, mgr1)
     \<Longrightarrow> map_of (sessions mgr1) cache_key = Some sess"
  by (induction modes) (auto simp add: Let_def AList.update_conv' split: if_splits sum.splits)

lemma get_model_None:
  assumes "fst (get_model env mgr set_code mode) = None"
  shows "get_model env mgr set_code mode = (None, mgr)"
proof -
  have "snd (get_model env mgr set_code mode) = mgr"
  proof (cases "ONNX_AVAILABLE env \<and> map_of (sessions mgr) (set_code @ ''_'' @ mode) = None")
    case True
    then have eq: "get_model env mgr set_code mode
            = try_modes env mgr set_code (set_code @ ''_'' @ mode)
                (if mode = ''Premier'' then [mode, ''PickTwo''] else [mode])"
      by (simp add: get_model_def Let_def del: try_modes.simps)
    with assms show ?thesis
      by (simp only: eq try_modes_None)
  next
    case False
    then show ?thesis
      by (auto simp add: get_model_def split: option.splits)
  qed
  with assms show ?thesis by (simp add: prod_eq_iff)
qed

lemma get_model_Some_cached:
  assumes "get_model env mgr set_code mode = (Some sess, mgr1)"
  shows "ONNX_AVAILABLE env \<and> map_of (sessions mgr1) (set_code @ ''_'' @ mode) = Some sess"
proof -
  from assms have onnx: "ONNX_AVAILABLE env"
    by (auto simp add: get_model_def split: if_splits)
  show ?thesis
  proof (cases "map_of (sessions mgr) (set_code @ ''_'' @ mode)")
    case (Some s)
    with assms onnx show ?thesis by (simp add: get_model_def)
  next
    case None
    with assms onnx
    have "try_modes env mgr set_code (set_code @ ''_'' @ mode)
            (if mode = ''Premier'' then [mode, ''PickTwo''] else [mode]) = (Some sess, mgr1)"
      by (simp add: get_model_def Let_def del: try_modes.simps)
    from try_modes_Some[OF this] onnx show ?thesis by simp
  qed
qed

lemma get_model_again:
  assumes "get_model env mgr set_code mode = (Some sess, mgr1)"
  shows "get_model env mgr1 set_code mode = (Some sess, mgr1)"
  using get_model_Some_cached[OF assms] by (simp add: get_model_def)

lemma get_cardnames_None:
  assumes "fst (get_cardnames env mgr set_code) = None"
  shows "get_cardnames env mgr set_code = (None, mgr)"
  using assms
  by (auto simp add: get_cardnames_def Let_def split: option.splits if_splits sum.splits)

lemma update_model_manager_same [simp]:
  "calc\<lparr>model_manager := model_manager calc\<rparr> = calc"
  by simp

lemma compute_ratings_unresolved:
  assumes "fst (get_model env (model_manager calc) set_code mode) = None
         \<or> fst (get_cardnames env (snd (get_model env (model_manager calc) set_code mode)) set_code) = None"
  shows "fst (compute_ratings env calc pool_names set_code mode) = []
       \<and> fst (compute_ratings env (snd (compute_ratings env calc pool_names set_code mode))
                pool_names' set_code mode) = []"
proof (cases "fst (get_model env (model_manager calc) set_code mode)")
  case None
  then have g: "get_model env (model_manager calc) set_code mode = (None, model_manager calc)"
    by (rule get_model_None)
  then have c: "compute_ratings env calc pool_names set_code mode = ([], calc)"
    by (simp add: compute_ratings_def)
  from g have "compute_ratings env calc pool_names' set_code mode = ([], calc)"
    by (simp add: compute_ratings_def)
  with c show ?thesis by simp
next
  case (Some sess)
  then obtain mgr1 where g: "get_model env (model_manager calc) set_code mode = (Some sess, mgr1)"
    by (cases "get_model env (model_manager calc) set_code mode") auto
  with Some assms have "fst (get_cardnames env mgr1 set_code) = None" by simp
  then have n: "get_cardnames env mgr1 set_code = (None, mgr1)"
    by (rule get_cardnames_None)
  from get_model_Some_cached[OF g] have onnx: "ONNX_AVAILABLE env" by simp
  have c: "compute_ratings env calc pool_names set_code mode
             = ([], calc\<lparr>model_manager := mgr1\<rparr>)"
    using g n onnx by (simp add: compute_ratings_def)
  have "compute_ratings env (calc\<lparr>model_manager := mgr1\<rparr>) pool_names' set_code mode
             = ([], calc\<lparr>model_manager := mgr1\<rparr>)"
    using get_model_again[OF g] n onnx by (simp add: compute_ratings_def)
  with c show ?thesis by simp
qed






lemma build_ratings_succeeds:
  "i + length names \<le> length ratings \<Longrightarrow> \<exists>res. build_ratings ratings i names acc = Inr res"
proof (induction names arbitrary: i acc)
  case Nil
  then show ?case by simp
next
  case (Cons nm rest)
  then have "py_nth ratings i = Inr (ratings ! i)" by (simp add: py_nth_def)
  with Cons.IH[of "Suc i" "AList.update nm (round1 (ratings ! i)) acc"] Cons.prems
  show ?case by simp
qed

lemma build_ratings_needs_scores:
  "build_ratings ratings i names acc = Inr res \<Longrightarrow> names \<noteq> []
     \<Longrightarrow> i + length names \<le> length ratings"
proof (induction names arbitrary: i acc)
  case Nil
  then show ?case by simp
next
  case (Cons nm rest)
  from Cons.prems(1) obtain r where r: "py_nth ratings i = Inr r"
    and rest: "build_ratings ratings (Suc i) rest (AList.update nm (round1 r) acc) = Inr res"
    by (auto split: sum.splits)
  from r have i: "i < length ratings" by (auto simp add: py_nth_def split: if_splits)
  show ?case
  proof (cases "rest = []")
    case True
    with i show ?thesis by simp
  next
    case False
    from Cons.IH[OF rest False] show ?thesis by simp
  qed
qed


lemma round1_50 [simp]: "round1 50 = 50"
  by (simp add: round1_def round_half_even_def)

lemma length_normalize_scores [simp]: "length (normalize_scores raw) = length raw"
  by (simp add: normalize_scores_def Let_def)

lemma std_nonneg: "0 \<le> std xs"
proof -
  have "0 \<le> sum_list (map (\<lambda>x. \<bar>x - mean xs\<bar> ^ 2) xs)"
    by (rule sum_list_nonneg) auto
  then show ?thesis by (simp add: std_def mean_def)
qed




text \<open>
  Claim C6. When no model or no vocabulary resolves for a set and mode,
  \<^const>\<open>compute_ratings\<close> returns the empty mapping, and a second call in the state the
  first one left returns the empty mapping again. A model file that fails to load, a card
  file that fails to read and a \<^verbatim>\<open>try\<close> body that raises each give the empty mapping as
  well: \<^const>\<open>compute_ratings\<close> returns a mapping on every path, and no exception value
  leaves it.
\<close>

theorem failures_give_no_ratings:
  "(fst (get_model env (model_manager calc) set_code mode) = None
      \<or> fst (get_cardnames env (snd (get_model env (model_manager calc) set_code mode)) set_code)
           = None
    \<longrightarrow> fst (compute_ratings env calc pool_names set_code mode) = []
        \<and> fst (compute_ratings env (snd (compute_ratings env calc pool_names set_code mode))
                 pool_names' set_code mode) = [])
   \<and> (ONNX_AVAILABLE env
        \<and> map_of (sessions (model_manager calc)) (set_code @ ''_'' @ mode) = None
        \<and> path_exists env
             [model_directory (model_manager calc), ''onnx'', set_code @ ''_'' @ mode @ ''.onnx'']
        \<and> InferenceSession env
             [model_directory (model_manager calc), ''onnx'', set_code @ ''_'' @ mode @ ''.onnx'']
             = Inl e
      \<longrightarrow> fst (compute_ratings env calc pool_names set_code mode) = [])
   \<and> (get_model env (model_manager calc) set_code mode = (Some sess, mgr1)
        \<and> map_of (cardnames mgr1) set_code = None
        \<and> read_csv_names env [model_directory mgr1, ''cards'', set_code @ ''.csv''] = Inl e
      \<longrightarrow> fst (compute_ratings env calc pool_names set_code mode) = [])
   \<and> (get_model env (model_manager calc) set_code mode = (Some sess, mgr1)
        \<and> get_cardnames env mgr1 set_code = (Some names, mgr2)
        \<and> compute_ratings_body sess names pool_names = Inl e
      \<longrightarrow> fst (compute_ratings env calc pool_names set_code mode) = [])"
proof (intro conjI impI)
  assume "fst (get_model env (model_manager calc) set_code mode) = None
      \<or> fst (get_cardnames env (snd (get_model env (model_manager calc) set_code mode)) set_code)
           = None"
  from compute_ratings_unresolved[OF this]
  show "fst (compute_ratings env calc pool_names set_code mode) = []"
    and "fst (compute_ratings env (snd (compute_ratings env calc pool_names set_code mode))
                 pool_names' set_code mode) = []"
    by simp_all
next
  assume a: "ONNX_AVAILABLE env
        \<and> map_of (sessions (model_manager calc)) (set_code @ ''_'' @ mode) = None
        \<and> path_exists env
             [model_directory (model_manager calc), ''onnx'', set_code @ ''_'' @ mode @ ''.onnx'']
        \<and> InferenceSession env
             [model_directory (model_manager calc), ''onnx'', set_code @ ''_'' @ mode @ ''.onnx'']
             = Inl e"
  then have "get_model env (model_manager calc) set_code mode = (None, model_manager calc)"
    by (auto simp add: get_model_def)
  then show "fst (compute_ratings env calc pool_names set_code mode) = []"
    by (simp add: compute_ratings_def)
next
  assume a: "get_model env (model_manager calc) set_code mode = (Some sess, mgr1)
        \<and> map_of (cardnames mgr1) set_code = None
        \<and> read_csv_names env [model_directory mgr1, ''cards'', set_code @ ''.csv''] = Inl e"
  then have "get_cardnames env mgr1 set_code = (None, mgr1)"
    by (simp add: get_cardnames_def Let_def)
  with a show "fst (compute_ratings env calc pool_names set_code mode) = []"
    by (simp add: compute_ratings_def)
next
  assume "get_model env (model_manager calc) set_code mode = (Some sess, mgr1)
        \<and> get_cardnames env mgr1 set_code = (Some names, mgr2)
        \<and> compute_ratings_body sess names pool_names = Inl e"
  then show "fst (compute_ratings env calc pool_names set_code mode) = []"
    by (simp add: compute_ratings_def)
qed

theorem failures_give_no_ratings_witness:
  "fst (compute_ratings empty_store fresh_calculator [''Opt''] ''DSK'' ''Premier'') = []
   \<and> fst (compute_ratings empty_store
            (snd (compute_ratings empty_store fresh_calculator [''Opt''] ''DSK'' ''Premier''))
            [''Opt''] ''DSK'' ''Premier'') = []
   \<and> fst (compute_ratings corrupt_store fresh_calculator [''Opt''] ''DSK'' ''Premier'') = []
   \<and> fst (compute_ratings (store_with failing_session) fresh_calculator
            [''Opt''] ''DSK'' ''Premier'') = []"
proof -
  have none: "fst (get_model empty_store (model_manager fresh_calculator) ''DSK'' ''Premier'') = None"
    by (simp add: get_model_def empty_store_def fresh_calculator_def)
  have load: "ONNX_AVAILABLE corrupt_store
        \<and> map_of (sessions (model_manager fresh_calculator)) (''DSK'' @ ''_'' @ ''Premier'') = None
        \<and> path_exists corrupt_store
             [model_directory (model_manager fresh_calculator), ''onnx'',
              ''DSK'' @ ''_'' @ ''Premier'' @ ''.onnx'']
        \<and> InferenceSession corrupt_store
             [model_directory (model_manager fresh_calculator), ''onnx'',
              ''DSK'' @ ''_'' @ ''Premier'' @ ''.onnx'']
             = Inl (Exception ''invalid protobuf'')"
    by (simp add: corrupt_store_def fresh_calculator_def)
  have g: "get_model (store_with failing_session) (model_manager fresh_calculator)
             ''DSK'' ''Premier''
           = (Some failing_session,
              \<lparr>model_directory = ''models'',
               sessions = [(''DSK_Premier'', failing_session)], cardnames = []\<rparr>)"
    by (simp add: get_model_def store_with_def fresh_calculator_def)
  have c: "get_cardnames (store_with failing_session)
             \<lparr>model_directory = ''models'',
              sessions = [(''DSK_Premier'', failing_session)], cardnames = []\<rparr> ''DSK''
           = (Some example_vocabulary,
              \<lparr>model_directory = ''models'',
               sessions = [(''DSK_Premier'', failing_session)],
               cardnames = [(''DSK'', example_vocabulary)]\<rparr>)"
    by (simp add: get_cardnames_def store_with_def)
  have b: "compute_ratings_body failing_session example_vocabulary [''Opt'']
             = Inl (Exception ''invalid input shape'')"
    by (simp add: compute_ratings_body_def run_inference_def failing_session_def py_nth_def)
  note t1 = failures_give_no_ratings[where env = empty_store and calc = fresh_calculator
      and set_code = "''DSK''" and mode = "''Premier''" and pool_names = "[''Opt'']"
      and pool_names' = "[''Opt'']"]
  note t2 = failures_give_no_ratings[where env = corrupt_store and calc = fresh_calculator
      and set_code = "''DSK''" and mode = "''Premier''" and pool_names = "[''Opt'']"
      and e = "Exception ''invalid protobuf''"]
  note t3 = failures_give_no_ratings[where env = "store_with failing_session"
      and calc = fresh_calculator
      and set_code = "''DSK''" and mode = "''Premier''" and pool_names = "[''Opt'']"
      and sess = failing_session and names = example_vocabulary
      and e = "Exception ''invalid input shape''"]
  from t1 none have p1:
    "fst (compute_ratings empty_store fresh_calculator [''Opt''] ''DSK'' ''Premier'') = []
     \<and> fst (compute_ratings empty_store
            (snd (compute_ratings empty_store fresh_calculator [''Opt''] ''DSK'' ''Premier''))
            [''Opt''] ''DSK'' ''Premier'') = []"
    by blast
  from t2 load have p2:
    "fst (compute_ratings corrupt_store fresh_calculator [''Opt''] ''DSK'' ''Premier'') = []"
    by blast
  from t3 g c b have p3:
    "fst (compute_ratings (store_with failing_session) fresh_calculator
            [''Opt''] ''DSK'' ''Premier'') = []"
    by blast
  from p1 p2 p3 show ?thesis by blast
qed

end
